theory Spec2Isabelle
  imports Main
begin

section \<open>Notebook synchronisation over WebDAV\<close>

text \<open>
  The development embeds three source files: the helper \<open>reflect\<close> of
  \<open>_helpers/promise-more.ts\<close>, the WebDAV service (\<open>upload\<close>, \<open>dlChanged\<close>,
  \<open>initServer\<close>) and the sync manager (\<open>download\<close>, \<open>syncServiceUpload\<close>).

  Conventions of the embedding:
  \<^item> an awaited promise is modelled by its settled outcome: \<open>Inr v\<close> when it fulfils
    with \<open>v\<close>, \<open>Inl e\<close> when it rejects (or the async function throws) with \<open>e\<close>;
  \<^item> what the host answers (HTTP replies, the clock, whether a store write succeeds) is
    read from a \<open>world\<close> record, and every request and store write an operation makes
    is returned, in program order, as a list of \<open>effect\<close>s;
  \<^item> a body received from the network is an untyped JSON value, because the service
    validates it at run time. It is the value \<open>response.json()\<close> yields, so every number
    literal of the text has already become a number of the host;
  \<^item> the host's numbers are a type \<open>'n\<close> of which only the linear order and the zero are
    used. The numbers \<open>JSON.parse\<close> yields are such a type: IEEE doubles, never NaN, with
    \<open>-0\<close> and \<open>0\<close> one value (they compare equal and both are falsy). Every theorem
    holds for each such type, so none depends on how the host rounds; the closed examples
    take \<open>int\<close> with small integers;
  \<^item> builtins of the host language that the repository does not define (\<open>btoa\<close>,
    \<open>JSON.stringify\<close>, the relational operators on operands that are not both numbers)
    are fields of a \<open>host\<close> record, so every theorem holds for any such builtin.
\<close>

subsection \<open>JSON values and the host language\<close>

datatype 'n jsval =
    JNull
  | JBool bool
  | JNum 'n
  | JStr string
  | JArr "'n jsval list"
  | JObj "(string \<times> 'n jsval) list"

text \<open>What a rejected promise or a thrown exception carries.\<close>

datatype thrown =
    Reason string   \<comment> \<open>\<open>Promise.reject('...')\<close> with a reason string\<close>
  | TypeError       \<comment> \<open>property read on \<open>null\<close>\<close>
  | NetworkError    \<comment> \<open>\<open>fetch\<close> rejects\<close>
  | StoreError      \<comment> \<open>a write to the local database rejects\<close>

text \<open>
  \<open>v.k\<close> for the keys the code reads (\<open>words\<close>, \<open>date\<close>, \<open>timestamp\<close>): a
  TypeError on \<open>null\<close>, \<open>undefined\<close> (here \<open>None\<close>) on a boolean, number, string or
  array, the own property on an object (\<open>JObj\<close> lists each key of the parsed object
  once).
\<close>

fun get_prop :: "'n jsval \<Rightarrow> string \<Rightarrow> thrown + 'n jsval option" where
  "get_prop JNull k = Inl TypeError"
| "get_prop (JObj kvs) k = Inr (map_of kvs k)"
| "get_prop v k = Inr None"

text \<open>Truthiness (\<open>ToBoolean\<close>) of a value that may be \<open>undefined\<close>.\<close>

fun truthy :: "('n::zero) jsval option \<Rightarrow> bool" where
  "truthy None = False"
| "truthy (Some JNull) = False"
| "truthy (Some (JBool b)) = b"
| "truthy (Some (JNum n)) = (n \<noteq> 0)"
| "truthy (Some (JStr s)) = (s \<noteq> [])"
| "truthy (Some (JArr xs)) = True"
| "truthy (Some (JObj kvs)) = True"

record 'n host =
  btoa :: "string \<Rightarrow> string"
  stringify :: "'n jsval \<Rightarrow> string option"       \<comment> \<open>\<open>JSON.stringify\<close>; \<open>None\<close> when it throws\<close>
  le_coerced :: "'n jsval \<Rightarrow> 'n jsval \<Rightarrow> bool"      \<comment> \<open>\<open>x <= y\<close> when not both are numbers\<close>
  gt_coerced :: "'n jsval \<Rightarrow> 'n jsval \<Rightarrow> bool"      \<comment> \<open>\<open>x > y\<close> when not both are numbers\<close>

text \<open>
  \<open>x <= y\<close> and \<open>x > y\<close>: on two numbers, the order of the host's numbers; an
  \<open>undefined\<close> operand converts to NaN, so both are false.
\<close>

fun js_le :: "('n::ord) host \<Rightarrow> 'n jsval option \<Rightarrow> 'n jsval option \<Rightarrow> bool" where
  "js_le h (Some (JNum a)) (Some (JNum b)) = (a \<le> b)"
| "js_le h None y = False"
| "js_le h x None = False"
| "js_le h (Some x) (Some y) = le_coerced h x y"

fun js_gt :: "('n::ord) host \<Rightarrow> 'n jsval option \<Rightarrow> 'n jsval option \<Rightarrow> bool" where
  "js_gt h (Some (JNum a)) (Some (JNum b)) = (a > b)"
| "js_gt h None y = False"
| "js_gt h x None = False"
| "js_gt h (Some x) (Some y) = gt_coerced h x y"

text \<open>\<open>s.endsWith(t)\<close>.\<close>

definition endsWith :: "string \<Rightarrow> string \<Rightarrow> bool" where
  "endsWith s t = (length t \<le> length s \<and> drop (length s - length t) s = t)"

subsection \<open>Data model\<close>

record SyncConfig =
  url :: string
  user :: string
  passwd :: string
  duration :: int

text \<open>
  \<open>Meta\<close> is read back with \<open>JSON.parse\<close> from the text \<open>setMeta\<close> stored. The etag is
  only ever written as a string; the timestamp is copied from the remote file, so it is
  whatever JSON value the file carried (\<open>None\<close>: the field is absent).
\<close>

record 'n Meta =
  etag :: "string option"
  timestamp :: "'n jsval option"

text \<open>A remote file whose \<open>words\<close> passed \<open>Array.isArray\<close>.\<close>

record 'n NotebookFile =
  nf_timestamp :: "'n jsval option"
  nf_words :: "'n jsval list"

record 'n DlResponse =
  json :: "'n NotebookFile"
  dl_etag :: string

subsection \<open>The host's side: requests, replies, stores\<close>

record request =
  meth :: string
  target :: string
  headers :: "(string \<times> string) list"
  payload :: "string option"

datatype 'n effect =
    Fetch request
  | SetMeta "'n Meta"
  | SetNotebook "'n jsval list"

text \<open>The body of a GET reply as \<open>response.json()\<close> sees it.\<close>

datatype 'n body = Malformed | Parsed "'n jsval"

record 'n get_response =
  status :: nat
  json_body :: "'n body"
  etag_header :: "string option"

text \<open>
  One \<open><response>\<close> element of the PROPFIND document: the text of its first
  \<open>href\<close> descendant (\<open>None\<close> without one) and whether
  \<open>querySelector('resourcetype collection')\<close> finds an element.
\<close>

record dav_response =
  href :: "string option"
  collection :: bool

datatype propfind_result =
    Unreachable                      \<comment> \<open>\<open>fetch\<close> or \<open>r.text()\<close> rejects\<close>
  | Unparsable                       \<comment> \<open>the parser throws or returns no document\<close>
  | Multistatus "dav_response list"  \<comment> \<open>\<open>doc.querySelectorAll('response')\<close>\<close>

record 'n world =
  propfind_reply :: propfind_result
  mkcol_reply :: "bool option"           \<comment> \<open>\<open>response.ok\<close>; \<open>None\<close>: \<open>fetch\<close> rejects\<close>
  get_reply :: "'n get_response option"
  put_reply :: "bool option"
  now :: 'n                              \<comment> \<open>\<open>Date.now()\<close>\<close>
  setSyncMeta_ok :: bool
  saveWords_ok :: bool

text \<open>
  Modelled from the spec: \<open>getSyncMeta\<close>, \<open>setSyncMeta\<close>, \<open>getWords\<close> and
  \<open>saveWords\<close> of \<open>@/background/database\<close> are not among the sources. The Meta store
  holds one record per service ("one Meta record per serviceID ... overwritten on every
  subsequent successful sync"), the Notebook Store "persists the list of saved words".
  A write that rejects leaves its store as it was; reads succeed.
\<close>

record 'n store =
  meta :: "'n Meta option"
  notebook :: "'n jsval list"

definition setMeta :: "'n world \<Rightarrow> 'n Meta \<Rightarrow> 'n store \<Rightarrow> 'n effect list \<times> 'n store \<times> (thrown + unit)" where
  "setMeta w m s =
     (if setSyncMeta_ok w then ([SetMeta m], s\<lparr>meta := Some m\<rparr>, Inr ())
      else ([SetMeta m], s, Inl StoreError))"

definition setNotebook :: "'n world \<Rightarrow> 'n jsval list \<Rightarrow> 'n store \<Rightarrow> 'n effect list \<times> 'n store \<times> (thrown + unit)" where
  "setNotebook w ws s =
     (if saveWords_ok w then ([SetNotebook ws], s\<lparr>notebook := ws\<rparr>, Inr ())
      else ([SetNotebook ws], s, Inl StoreError))"

subsection \<open>\<open>reflect\<close> (promise-more.ts)\<close>

text \<open>
  The array-like is a list (\<open>Array.from\<close> of an array-like is the array of its elements).
  An element is a plain value, or a promise by how it settles.
\<close>

datatype ('e, 'a) item = Plain 'a | Fulfils 'a | Rejects 'e

fun Promise_resolve :: "('e, 'a) item \<Rightarrow> 'e + 'a" where
  "Promise_resolve (Plain v) = Inr v"
| "Promise_resolve (Fulfils v) = Inr v"
| "Promise_resolve (Rejects e) = Inl e"

text \<open>\<open>.catch(() => null)\<close>: \<open>None\<close> stands for \<open>null\<close>.\<close>

fun catch_null :: "'e + 'a \<Rightarrow> 'e + 'a option" where
  "catch_null (Inr v) = Inr (Some v)"
| "catch_null (Inl e) = Inr None"

text \<open>\<open>Promise.all\<close>: the values in order, or a rejection if some element rejects.\<close>

fun Promise_all :: "('e + 'b) list \<Rightarrow> 'e + 'b list" where
  "Promise_all [] = Inr []"
| "Promise_all (Inl e # ps) = Inl e"
| "Promise_all (Inr v # ps) = (case Promise_all ps of Inl e \<Rightarrow> Inl e | Inr vs \<Rightarrow> Inr (v # vs))"

definition reflect :: "('e, 'a) item list \<Rightarrow> 'e + 'a option list" where
  "reflect arr = Promise_all (map (\<lambda>p. catch_null (Promise_resolve p)) arr)"

subsection \<open>The WebDAV service\<close>

definition basic_auth :: "'n host \<Rightarrow> SyncConfig \<Rightarrow> string \<times> string" where
  "basic_auth h config =
     (''Authorization'', ''Basic '' @ btoa h (user config @ '':'' @ passwd config))"

definition upload_request :: "'n host \<Rightarrow> SyncConfig \<Rightarrow> string \<Rightarrow> request" where
  "upload_request h config content =
     \<lparr>meth = ''PUT'', target = url config @ ''Saladict/notebook.json'',
      headers = [basic_auth h config], payload = Some content\<rparr>"

text \<open>\<open>upload\<close>: one PUT; the result is \<open>response.ok\<close>.\<close>

definition upload :: "'n host \<Rightarrow> 'n world \<Rightarrow> SyncConfig \<Rightarrow> string \<Rightarrow> 'n effect list \<times> (thrown + bool)" where
  "upload h w config content =
     ([Fetch (upload_request h config content)],
      case put_reply w of None \<Rightarrow> Inl NetworkError | Some ok \<Rightarrow> Inr ok)"

text \<open>The headers object of \<open>dlChanged\<close>: the conditional pair is added when \<open>meta.etag != null\<close>.\<close>

definition dlChanged_request :: "'n host \<Rightarrow> SyncConfig \<Rightarrow> 'n Meta \<Rightarrow> request" where
  "dlChanged_request h config m =
     \<lparr>meth = ''GET'', target = url config @ ''Saladict/notebook.json'',
      headers = basic_auth h config #
        (case etag m of None \<Rightarrow> []
         | Some e \<Rightarrow> [(''If-None-Match'', e), (''If-Modified-Since'', e)]),
      payload = None\<rparr>"

text \<open>
  \<open>json.words.some(w => !w.date)\<close>: left to right, stopping at the first word whose
  date is falsy; reading \<open>date\<close> of a \<open>null\<close> word throws.
\<close>

fun some_no_date :: "('n::zero) jsval list \<Rightarrow> thrown + bool" where
  "some_no_date [] = Inr False"
| "some_no_date (w # ws) =
     (case get_prop w ''date'' of
        Inl e \<Rightarrow> Inl e
      | Inr d \<Rightarrow> if \<not> truthy d then Inr True else some_no_date ws)"

text \<open>\<open>response.headers.get('ETag') || ''\<close>.\<close>

definition etag_or_empty :: "'n get_response \<Rightarrow> string" where
  "etag_or_empty response = (case etag_header response of None \<Rightarrow> [] | Some e \<Rightarrow> e)"

text \<open>
  The part of \<open>dlChanged\<close> after the reply has arrived. \<open>Inr None\<close> is the
  \<open>undefined\<close> it returns for "no change".
\<close>

definition dlChanged_reply :: "('n::{linorder,zero}) host \<Rightarrow> 'n Meta \<Rightarrow> 'n get_response \<Rightarrow> thrown + 'n DlResponse option" where
  "dlChanged_reply h m response =
     (if status response = 304 then Inr None
      else case json_body response of
        Malformed \<Rightarrow> Inr None
      | Parsed j \<Rightarrow>
         (case get_prop j ''words'' of
            Inl e \<Rightarrow> Inl e
          | Inr (Some (JArr ws)) \<Rightarrow>
             (case some_no_date ws of
                Inl e \<Rightarrow> Inl e
              | Inr True \<Rightarrow> Inr None
              | Inr False \<Rightarrow>
                 (case get_prop j ''timestamp'' of
                    Inl e \<Rightarrow> Inl e
                  | Inr ts \<Rightarrow>
                     if truthy (timestamp m) \<and> \<not> truthy ts then Inr None
                     else if truthy (timestamp m) \<and> js_le h ts (timestamp m) then Inr None
                     else Inr (Some \<lparr>json = \<lparr>nf_timestamp = ts, nf_words = ws\<rparr>,
                                      dl_etag = etag_or_empty response\<rparr>)))
          | Inr other \<Rightarrow> Inr None))"

definition dlChanged :: "('n::{linorder,zero}) host \<Rightarrow> 'n world \<Rightarrow> SyncConfig \<Rightarrow> 'n Meta \<Rightarrow> 'n effect list \<times> (thrown + 'n DlResponse option)" where
  "dlChanged h w config m =
     ([Fetch (dlChanged_request h config m)],
      case get_reply w of
        None \<Rightarrow> Inl NetworkError
      | Some response \<Rightarrow> dlChanged_reply h m response)"

text \<open>
  What the callback given to \<open>.some\<close> in \<open>initServer\<close> returns for one element:
  \<open>true\<close>, \<open>false\<close>, or the promise \<open>Promise.reject('dir')\<close>, an object.
\<close>

datatype cb_value = CbBool bool | CbRejected string

definition is_saladict :: "dav_response \<Rightarrow> cb_value" where
  "is_saladict el =
     (case href el of
        None \<Rightarrow> CbBool False
      | Some t \<Rightarrow>
          if t \<noteq> [] \<and> endsWith t ''/Saladict/''
          then (if collection el then CbBool True else CbRejected ''dir'')
          else CbBool False)"

fun cb_truthy :: "cb_value \<Rightarrow> bool" where
  "cb_truthy (CbBool b) = b"
| "cb_truthy (CbRejected r) = True"

definition propfind_request :: "'n host \<Rightarrow> SyncConfig \<Rightarrow> request" where
  "propfind_request h config =
     \<lparr>meth = ''PROPFIND'', target = url config,
      headers = [basic_auth h config,
                 (''Content-Type'', ''application/xml; charset=\"utf-8\"''),
                 (''Depth'', ''2'')],
      payload = None\<rparr>"

definition mkcol_request :: "SyncConfig \<Rightarrow> request" where
  "mkcol_request config =
     \<lparr>meth = ''MKCOL'', target = url config @ ''Saladict'', headers = [], payload = None\<rparr>"

text \<open>The staleness check at the end of \<open>initServer\<close>.\<close>

definition check_exist :: "('n::{linorder,zero}) host \<Rightarrow> 'n world \<Rightarrow> SyncConfig \<Rightarrow> 'n Meta option \<Rightarrow> 'n effect list \<times> (thrown + unit)" where
  "check_exist h w config mo =
     (case mo of
        None \<Rightarrow> ([], Inr ())
      | Some m \<Rightarrow>
          if truthy (timestamp m) then
            (case dlChanged h w config m of
               (es, Inl e) \<Rightarrow> (es, Inl e)
             | (es, Inr None) \<Rightarrow> (es, Inr ())
             | (es, Inr (Some file)) \<Rightarrow>
                 if js_gt h (timestamp m) (nf_timestamp (json file))
                 then (es, Inl (Reason ''exist''))
                 else (es, Inr ()))
          else ([], Inr ()))"

definition initServer :: "('n::{linorder,zero}) host \<Rightarrow> 'n world \<Rightarrow> SyncConfig \<Rightarrow> 'n store \<Rightarrow> 'n effect list \<times> (thrown + unit)" where
  "initServer h w config s =
     (case propfind_reply w of
        Unreachable \<Rightarrow> ([Fetch (propfind_request h config)], Inl (Reason ''network''))
      | Unparsable \<Rightarrow> ([Fetch (propfind_request h config)], Inl (Reason ''parse''))
      | Multistatus rs \<Rightarrow>
          if \<not> list_ex (\<lambda>el. cb_truthy (is_saladict el)) rs then
            ([Fetch (propfind_request h config), Fetch (mkcol_request config)],
             case mkcol_reply w of
               None \<Rightarrow> Inl NetworkError
             | Some ok \<Rightarrow> if \<not> ok then Inl (Reason ''mkcol'') else Inr ())
          else
            (case check_exist h w config (meta s) of
               (es, r) \<Rightarrow> (Fetch (propfind_request h config) # es, r)))"

subsection \<open>The sync manager\<close>

text \<open>\<open>meta || {}\<close> for the \<open>meta\<close> that \<open>getMeta\<close> returned.\<close>

definition meta_or_empty :: "'n store \<Rightarrow> 'n Meta" where
  "meta_or_empty s = (case meta s of None \<Rightarrow> \<lparr>etag = None, timestamp = None\<rparr> | Some m \<Rightarrow> m)"

text \<open>\<open>download\<close>: nothing is written on "no change"; else \<open>setMeta\<close>, then \<open>setNotebook\<close>.\<close>

definition download :: "('n::{linorder,zero}) host \<Rightarrow> 'n world \<Rightarrow> SyncConfig \<Rightarrow> 'n store \<Rightarrow> 'n effect list \<times> 'n store \<times> (thrown + unit)" where
  "download h w config s =
     (case dlChanged h w config (meta_or_empty s) of
        (es, Inl e) \<Rightarrow> (es, s, Inl e)
      | (es, Inr None) \<Rightarrow> (es, s, Inr ())
      | (es, Inr (Some response)) \<Rightarrow>
          (case setMeta w \<lparr>etag = Some (dl_etag response),
                           timestamp = nf_timestamp (json response)\<rparr> s of
             (es1, s1, Inl e) \<Rightarrow> (es @ es1, s1, Inl e)
           | (es1, s1, Inr u) \<Rightarrow>
               (case setNotebook w (nf_words (json response)) s1 of
                  (es2, s2, r) \<Rightarrow> (es @ es1 @ es2, s2, r))))"

text \<open>
  \<open>syncServiceUpload\<close>; \<open>None\<close> for the configuration when \<open>getSyncConfig\<close> finds
  none. Each \<open>return\<close> of the source resolves the promise (\<open>Inr ()\<close>).
\<close>

definition syncServiceUpload :: "('n::{linorder,zero}) host \<Rightarrow> 'n world \<Rightarrow> SyncConfig option \<Rightarrow> 'n store \<Rightarrow> 'n effect list \<times> 'n store \<times> (thrown + unit)" where
  "syncServiceUpload h w cfg s =
     (case cfg of
        None \<Rightarrow> ([], s, Inr ())
      | Some config \<Rightarrow>
         (case download h w config s of
            (es, s1, Inl e) \<Rightarrow> (es, s1, Inl e)
          | (es, s1, Inr u) \<Rightarrow>
              if notebook s1 = [] then (es, s1, Inr ())
              else
                (case stringify h (JObj [(''timestamp'', JNum (now w)),
                                         (''words'', JArr (notebook s1))]) of
                   None \<Rightarrow> (es, s1, Inr ())
                 | Some content \<Rightarrow>
                    (case upload h w config content of
                       (es1, Inl e) \<Rightarrow> (es @ es1, s1, Inl e)
                     | (es1, Inr ok) \<Rightarrow>
                         if \<not> ok then (es @ es1, s1, Inr ())
                         else
                           (case setMeta w \<lparr>etag = Some [], timestamp = Some (JNum (now w))\<rparr> s1 of
                              (es2, s2, r) \<Rightarrow> (es @ es1 @ es2, s2, r))))))"

text \<open>\<open>syncServiceInit\<close> and \<open>syncServiceDownload\<close>.\<close>

definition syncServiceInit :: "('n::{linorder,zero}) host \<Rightarrow> 'n world \<Rightarrow> SyncConfig \<Rightarrow> 'n store \<Rightarrow> 'n effect list \<times> (thrown + unit)" where
  "syncServiceInit h w config s = initServer h w config s"

definition syncServiceDownload :: "('n::{linorder,zero}) host \<Rightarrow> 'n world \<Rightarrow> SyncConfig option \<Rightarrow> 'n store \<Rightarrow> 'n effect list \<times> 'n store \<times> (thrown + unit)" where
  "syncServiceDownload h w cfg s =
     (case cfg of None \<Rightarrow> ([], s, Inr ()) | Some config \<Rightarrow> download h w config s)"

section \<open>Properties\<close>

subsection \<open>Shared facts\<close>

lemmas eval_defs = download_def dlChanged_def dlChanged_reply_def dlChanged_request_def
  meta_or_empty_def setMeta_def setNotebook_def etag_or_empty_def basic_auth_def

lemma meta_or_empty_Some: "meta s = Some m \<Longrightarrow> meta_or_empty s = m"
  by (simp add: meta_or_empty_def)

lemma dlChanged_result:
  "get_reply w = Some response \<Longrightarrow> snd (dlChanged h w config m) = dlChanged_reply h m response"
  by (simp add: dlChanged_def)

text \<open>The three outcomes of \<open>dlChanged\<close> as \<open>download\<close> treats them.\<close>

lemma download_unchanged:
  "snd (dlChanged h w config (meta_or_empty s)) = Inr None \<Longrightarrow>
   download h w config s = ([Fetch (dlChanged_request h config (meta_or_empty s))], s, Inr ())"
  by (simp add: download_def dlChanged_def split: option.splits)

lemma download_throws:
  "snd (dlChanged h w config (meta_or_empty s)) = Inl e \<Longrightarrow>
   download h w config s = ([Fetch (dlChanged_request h config (meta_or_empty s))], s, Inl e)"
  by (simp add: download_def dlChanged_def split: option.splits)


lemma download_first_effect:
  "\<exists>rest. fst (download h w config s) = Fetch (dlChanged_request h config (meta_or_empty s)) # rest"
  by (auto simp add: download_def dlChanged_def setMeta_def setNotebook_def
      split: option.splits sum.splits)

lemma download_fetches:
  "Fetch r \<in> set (fst (download h w config s)) \<Longrightarrow> r = dlChanged_request h config (meta_or_empty s)"
  by (auto simp add: download_def dlChanged_def setMeta_def setNotebook_def
      split: option.splits sum.splits if_splits)

text \<open>Only a property read on \<open>null\<close> makes the validation throw.\<close>

lemma get_prop_throws: "get_prop j k = Inl e \<Longrightarrow> e = TypeError"
  by (cases j) auto

lemma some_no_date_throws: "some_no_date ws = Inl e \<Longrightarrow> e = TypeError"
proof (induction ws)
  case Nil
  then show ?case by simp
next
  case (Cons a ws)
  then show ?case by (auto split: if_splits sum.splits dest: get_prop_throws)
qed

lemma some_no_date_returns: "JNull \<notin> set ws \<Longrightarrow> \<exists>b. some_no_date ws = Inr b"
proof (induction ws)
  case Nil
  have "some_no_date [] = Inr False" by simp
  then show ?case by blast
next
  case (Cons a ws)
  then have a: "a \<noteq> JNull" and "\<exists>b. some_no_date ws = Inr b" by auto
  then obtain b where b: "some_no_date ws = Inr b" by blast
  from a obtain d where d: "get_prop a ''date'' = Inr d" by (cases a) auto
  show ?case
  proof (cases "truthy d")
    case True
    with b d have "some_no_date (a # ws) = Inr b" by simp
    then show ?thesis by blast
  next
    case False
    with d have "some_no_date (a # ws) = Inr True" by simp
    then show ?thesis by blast
  qed
qed

lemma dlChanged_reply_throws: "dlChanged_reply h m response = Inl e \<Longrightarrow> e = TypeError"
  by (auto simp add: dlChanged_reply_def
      split: if_splits body.splits sum.splits option.splits jsval.splits bool.splits
      dest: get_prop_throws some_no_date_throws)


lemma some_no_date_found:
  assumes "\<And>x. x \<in> set pre \<Longrightarrow> \<exists>d. get_prop x ''date'' = Inr d \<and> truthy d"
      and "get_prop x ''date'' = Inr d" and "\<not> truthy d"
  shows "some_no_date (pre @ x # post) = Inr True"
  using assms
proof (induction pre)
  case Nil
  then show ?case by simp
next
  case (Cons a pre)
  from Cons.prems(1)[of a] obtain e where "get_prop a ''date'' = Inr e" "truthy e" by auto
  moreover have "some_no_date (pre @ x # post) = Inr True" using Cons by simp
  ultimately show ?case by simp
qed


lemma dlChanged_reply_stale:
  assumes "timestamp m = Some (JNum t)" "t \<noteq> 0" "json_body response = Parsed j"
      and "get_prop j ''timestamp'' = Inr (Some (JNum n))" "n \<le> t"
  shows "dlChanged_reply h m response = Inr None \<or> dlChanged_reply h m response = Inl TypeError"
  using assms
  by (cases j)
     (auto simp add: dlChanged_reply_def
        split: sum.splits option.splits jsval.splits bool.splits dest: some_no_date_throws)

lemma dlChanged_reply_fresh:
  assumes "dlChanged_reply h m response = Inr (Some fl)" and "truthy (timestamp m)"
  shows "\<not> js_le h (nf_timestamp (json fl)) (timestamp m)"
  using assms
  by (auto simp add: dlChanged_reply_def
      split: if_splits body.splits sum.splits option.splits jsval.splits bool.splits)

lemma dlChanged_reply_malformed:
  "json_body response = Malformed \<Longrightarrow> dlChanged_reply h m response = Inr None"
  by (simp add: dlChanged_reply_def)

lemma dlChanged_reply_words_not_array:
  assumes "json_body response = Parsed j" and "get_prop j ''words'' = Inr v"
      and "\<And>ws. v \<noteq> Some (JArr ws)"
  shows "dlChanged_reply h m response = Inr None"
  using assms by (auto simp add: dlChanged_reply_def split: option.splits jsval.splits)

lemma dlChanged_reply_word_without_date:
  assumes "json_body response = Parsed j"
      and "get_prop j ''words'' = Inr (Some (JArr (pre @ x # post)))"
      and "\<And>x. x \<in> set pre \<Longrightarrow> \<exists>d. get_prop x ''date'' = Inr d \<and> truthy d"
      and "get_prop x ''date'' = Inr d" and "\<not> truthy d"
  shows "dlChanged_reply h m response = Inr None"
proof -
  have "some_no_date (pre @ x # post) = Inr True"
    using assms(3,4,5) by (rule some_no_date_found)
  with assms(1,2) show ?thesis by (simp add: dlChanged_reply_def)
qed

text \<open>A run of \<open>syncServiceUpload\<close> that issued the PUT and got \<open>response.ok\<close>.\<close>

lemma upload_request_not_download:
  "Fetch (upload_request h config a) \<notin> set (fst (download h w config s))"
proof
  assume "Fetch (upload_request h config a) \<in> set (fst (download h w config s))"
  then have "upload_request h config a = dlChanged_request h config (meta_or_empty s)"
    by (rule download_fetches)
  then have "meth (upload_request h config a) = meth (dlChanged_request h config (meta_or_empty s))"
    by simp
  then show False by (simp add: upload_request_def dlChanged_request_def)
qed

lemma upload_request_inj:
  "upload_request h config a = upload_request h config b \<Longrightarrow> a = b"
  by (simp add: upload_request_def)

lemma syncServiceUpload_success:
  assumes run: "syncServiceUpload h w (Some config) s = (es, s', r)"
      and put: "Fetch (upload_request h config tx) \<in> set es"
      and ok: "put_reply w = Some True"
  shows "\<exists>es1 s1. download h w config s = (es1, s1, Inr ()) \<and> notebook s1 \<noteq> [] \<and>
           stringify h (JObj [(''timestamp'', JNum (now w)), (''words'', JArr (notebook s1))]) = Some tx \<and>
           es = es1 @ [Fetch (upload_request h config tx),
                       SetMeta \<lparr>etag = Some [], timestamp = Some (JNum (now w))\<rparr>] \<and>
           (s', r) = (if setSyncMeta_ok w
                      then (s1\<lparr>meta := Some \<lparr>etag = Some [], timestamp = Some (JNum (now w))\<rparr>\<rparr>, Inr ())
                      else (s1, Inl StoreError))"
proof -
  obtain es1 s1 r1 where d: "download h w config s = (es1, s1, r1)"
    by (cases "download h w config s") auto
  have nodl: "Fetch (upload_request h config tx) \<notin> set es1"
    using upload_request_not_download[of h config tx w s] d by simp
  show ?thesis
  proof (cases r1)
    case (Inl e)
    with run d have "es = es1" by (simp add: syncServiceUpload_def)
    with put nodl show ?thesis by simp
  next
    case (Inr u)
    show ?thesis
    proof (cases "notebook s1 = []")
      case True
      with run d Inr have "es = es1" by (simp add: syncServiceUpload_def)
      with put nodl show ?thesis by simp
    next
      case False
      show ?thesis
      proof (cases "stringify h (JObj [(''timestamp'', JNum (now w)), (''words'', JArr (notebook s1))])")
        case None
        with run d Inr False have "es = es1" by (simp add: syncServiceUpload_def)
        with put nodl show ?thesis by simp
      next
        case (Some t)
        from run d Inr False Some ok
        have res: "es = es1 @ [Fetch (upload_request h config t),
                        SetMeta \<lparr>etag = Some [], timestamp = Some (JNum (now w))\<rparr>]"
          "(s', r) = (if setSyncMeta_ok w
                      then (s1\<lparr>meta := Some \<lparr>etag = Some [], timestamp = Some (JNum (now w))\<rparr>\<rparr>, Inr ())
                      else (s1, Inl StoreError))"
          by (auto simp add: syncServiceUpload_def upload_def setMeta_def split: if_splits)
        from put nodl res(1) have "upload_request h config tx = upload_request h config t" by auto
        then have "tx = t" by (rule upload_request_inj)
        with d Inr False Some res show ?thesis by simp
      qed
    qed
  qed
qed

lemma upload_run:
  "syncServiceUpload \<lparr>btoa = id, stringify = (\<lambda>v. Some ''notebook''), le_coerced = (=), gt_coerced = (=)\<rparr>
     \<lparr>propfind_reply = Unreachable, mkcol_reply = None,
      get_reply = Some \<lparr>status = 304, json_body = Malformed, etag_header = None\<rparr>,
      put_reply = Some True, now = (2000::int), setSyncMeta_ok = True, saveWords_ok = True\<rparr>
     (Some \<lparr>url = ''https://dav/'', user = ''u'', passwd = ''p'', duration = 60000\<rparr>)
     \<lparr>meta = Some \<lparr>etag = Some ''e1'', timestamp = Some (JNum (1000::int))\<rparr>, notebook = [JObj [(''date'', JNum (5::int))]]\<rparr>
   = ([Fetch \<lparr>meth = ''GET'', target = ''https://dav/Saladict/notebook.json'',
              headers = [(''Authorization'', ''Basic u:p''),
                         (''If-None-Match'', ''e1''), (''If-Modified-Since'', ''e1'')],
              payload = None\<rparr>,
       Fetch \<lparr>meth = ''PUT'', target = ''https://dav/Saladict/notebook.json'',
              headers = [(''Authorization'', ''Basic u:p'')], payload = Some ''notebook''\<rparr>,
       SetMeta \<lparr>etag = Some [], timestamp = Some (JNum (2000::int))\<rparr>],
      \<lparr>meta = Some \<lparr>etag = Some [], timestamp = Some (JNum (2000::int))\<rparr>,
       notebook = [JObj [(''date'', JNum (5::int))]]\<rparr>,
      Inr ())"
  by (simp add: syncServiceUpload_def upload_def upload_request_def eval_defs)

text \<open>PROPFIND, the conditional GET and PUT carry the Basic credentials.\<close>

lemma authenticated_requests:
  "basic_auth h config \<in> set (headers (propfind_request h config))"
  "basic_auth h config \<in> set (headers (dlChanged_request h config m))"
  "basic_auth h config \<in> set (headers (upload_request h config a))"
  by (simp_all add: propfind_request_def dlChanged_request_def upload_request_def)

subsection \<open>\<open>initServer\<close>\<close>

text \<open>
  The rejection \<open>'exist'\<close> is out of reach: \<open>dlChanged\<close> hands back a file only when
  \<open>json.timestamp <= meta.timestamp\<close> is false, and then \<open>meta.timestamp > json.timestamp\<close>
  is false too (for numbers by arithmetic; for other operands this is the law of the
  host's relational operators assumed here).
\<close>

lemma js_gt_le:
  fixes h :: "('n::linorder) host"
  assumes "\<And>x y. gt_coerced h y x \<Longrightarrow> le_coerced h x y" and "js_gt h a b"
  shows "js_le h b a"
  using assms by (cases "(h, a, b)" rule: js_gt.cases) auto

lemma check_exist_never_exist:
  assumes "\<And>x y. gt_coerced h y x \<Longrightarrow> le_coerced h x y"
  shows "snd (check_exist h w config mo) \<noteq> Inl (Reason ''exist'')"
proof (cases mo)
  case None
  then show ?thesis by (simp add: check_exist_def)
next
  case (Some m)
  note mo = this
  show ?thesis
  proof (cases "truthy (timestamp m)")
    case False
    with mo show ?thesis by (simp add: check_exist_def)
  next
    case True
    show ?thesis
    proof (cases "get_reply w")
      case None
      with mo True show ?thesis by (simp add: check_exist_def dlChanged_def)
    next
      case (Some response)
      note resp = this
      show ?thesis
      proof (cases "dlChanged_reply h m response")
        case (Inl e)
        have "dlChanged_reply h m response \<noteq> Inl (Reason ''exist'')"
          using dlChanged_reply_throws[of h m response "Reason ''exist''"] by auto
        with Inl mo True resp show ?thesis
          by (auto simp add: check_exist_def dlChanged_def)
      next
        case (Inr fo)
        show ?thesis
        proof (cases fo)
          case None
          with Inr mo True resp show ?thesis
            by (simp add: check_exist_def dlChanged_def)
        next
          case (Some fl)
          with Inr have "dlChanged_reply h m response = Inr (Some fl)" by simp
          from dlChanged_reply_fresh[OF this True]
          have "\<not> js_gt h (timestamp m) (nf_timestamp (json fl))"
            using js_gt_le[OF assms] by blast
          with Inr Some mo True resp show ?thesis
            by (simp add: check_exist_def dlChanged_def)
        qed
      qed
    qed
  qed
qed

lemma initServer_never_exist:
  assumes "\<And>x y. gt_coerced h y x \<Longrightarrow> le_coerced h x y"
  shows "snd (initServer h w config s) \<noteq> Inl (Reason ''exist'')"
  using check_exist_never_exist[OF assms, of w config "meta s"]
  by (auto simp add: initServer_def split: propfind_result.splits option.splits prod.splits)

text \<open>The rejections \<open>initServer\<close> can end with; \<open>'dir'\<close> is not among them.\<close>

lemma check_exist_rejections:
  "snd (check_exist h w config mo) = Inl e \<Longrightarrow> e \<in> {Reason ''exist'', NetworkError, TypeError}"
  by (auto simp add: check_exist_def dlChanged_def
      split: option.splits if_splits sum.splits dest: dlChanged_reply_throws)

lemma initServer_rejections:
  assumes "snd (initServer h w config s) = Inl e"
  shows "e \<in> {Reason ''network'', Reason ''parse'', Reason ''mkcol'', Reason ''exist'',
              NetworkError, TypeError}"
proof (cases "propfind_reply w")
  case Unreachable
  with assms show ?thesis by (simp add: initServer_def)
next
  case Unparsable
  with assms show ?thesis by (simp add: initServer_def)
next
  case (Multistatus rs)
  show ?thesis
  proof (cases "list_ex (\<lambda>el. cb_truthy (is_saladict el)) rs")
    case False
    with assms Multistatus show ?thesis
      by (auto simp add: initServer_def split: option.splits if_splits)
  next
    case True
    with assms Multistatus have "snd (check_exist h w config (meta s)) = Inl e"
      by (simp add: initServer_def split: prod.splits)
    from check_exist_rejections[OF this] show ?thesis by auto
  qed
qed

lemma initServer_never_dir: "snd (initServer h w config s) \<noteq> Inl (Reason ''dir'')"
proof
  assume "snd (initServer h w config s) = Inl (Reason ''dir'')"
  from initServer_rejections[OF this] show False by simp
qed

text \<open>Once some \<open>href\<close> ends in \<open>/Saladict/\<close>, collection or not, no MKCOL is issued.\<close>

lemma initServer_found_no_mkcol:
  assumes "propfind_reply w = Multistatus rs"
      and "el \<in> set rs" and "href el = Some t" and "endsWith t ''/Saladict/''"
  shows "Fetch (mkcol_request config) \<notin> set (fst (initServer h w config s))"
proof -
  have "t \<noteq> []" using assms(4) by (auto simp add: endsWith_def)
  with assms(3,4) have "cb_truthy (is_saladict el)" by (simp add: is_saladict_def)
  with assms(2) have "list_ex (\<lambda>el. cb_truthy (is_saladict el)) rs"
    by (auto simp add: list_ex_iff)
  then show ?thesis
    using assms(1)
    by (auto simp add: initServer_def check_exist_def dlChanged_def mkcol_request_def
        propfind_request_def dlChanged_request_def
        split: option.splits if_splits sum.splits prod.splits)
qed

text \<open>
  A remote file older than the stored Meta is not a file that \<open>dlChanged\<close> returns:
  with Meta at 1000 and a valid remote file at 500, \<open>dlChanged\<close> returns \<open>undefined\<close>
  and \<open>initServer\<close> resolves.
\<close>

lemma initServer_older_remote_file:
  "initServer h
     (w\<lparr>propfind_reply := Multistatus [\<lparr>href = Some ''/dav/Saladict/'', collection = True\<rparr>],
        get_reply := Some \<lparr>status = 200,
           json_body = Parsed (JObj [(''timestamp'', JNum (500::int)),
                                     (''words'', JArr [JObj [(''date'', JNum 1)]])]),
           etag_header = None\<rparr>\<rparr>)
     config
     (s\<lparr>meta := Some \<lparr>etag = None, timestamp = Some (JNum 1000)\<rparr>\<rparr>) =
   ([Fetch (propfind_request h config),
     Fetch (dlChanged_request h config \<lparr>etag = None, timestamp = Some (JNum 1000)\<rparr>)], Inr ())"
  by (simp add: initServer_def check_exist_def dlChanged_def dlChanged_reply_def
      is_saladict_def endsWith_def)



text \<open>
  C2. The PROPFIND reply lists \<open>/dav/Saladict/\<close> as a resource that is not a
  collection. No MKCOL is issued, as the property says, but \<open>initServer\<close> does not
  reject with \<open>"dir"\<close>: the rejected promise is only the callback's return value, which
  \<open>.some\<close> reads as true, and with no stored Meta the call resolves.
\<close>

theorem initServer_non_collection_resolves:
  "initServer h
     (w\<lparr>propfind_reply := Multistatus [\<lparr>href = Some ''/dav/Saladict/'', collection = False\<rparr>]\<rparr>)
     config (s\<lparr>meta := None\<rparr>) =
   ([Fetch (propfind_request h config)], Inr ())"
  by (simp add: initServer_def check_exist_def is_saladict_def endsWith_def)

text \<open>
  C3. The property asks for the Basic \<open>Authorization\<close> header on every request. When
  the PROPFIND reply lists no \<open>Saladict/\<close>, the MKCOL request that follows carries no
  header at all.
\<close>

theorem initServer_mkcol_unauthenticated:
  "fst (initServer h (w\<lparr>propfind_reply := Multistatus []\<rparr>) config s) =
     [Fetch (propfind_request h config),
      Fetch \<lparr>meth = ''MKCOL'', target = url config @ ''Saladict'', headers = [], payload = None\<rparr>]"
  by (simp add: initServer_def mkcol_request_def)

subsection \<open>\<open>download\<close>\<close>

text \<open>
  C4 (as amended). For every stored Meta with a nonzero timestamp \<open>t\<close> and every
  downloaded remote file with a timestamp \<open>n \<le> t\<close> (and no \<open>null\<close> among its
  words), the download cycle applies nothing: it returns, its only effect is the GET
  request, the Notebook Store is not written and Meta is exactly as before.
\<close>

theorem download_stale_is_noop:
  assumes "meta s = Some m" and "timestamp m = Some (JNum t)" and "t \<noteq> 0"
      and "get_reply w = Some response" and "json_body response = Parsed j"
      and "get_prop j ''timestamp'' = Inr (Some (JNum n))" and "n \<le> t"
      and "\<And>ws. get_prop j ''words'' = Inr (Some (JArr ws)) \<Longrightarrow> JNull \<notin> set ws"
  shows "download h w config s = ([Fetch (dlChanged_request h config m)], s, Inr ())"
proof -
  have m: "meta_or_empty s = m" using assms(1) by (rule meta_or_empty_Some)
  have res: "snd (dlChanged h w config (meta_or_empty s)) = dlChanged_reply h m response"
    using assms(4) m by (simp add: dlChanged_result)
  have "dlChanged_reply h m response \<noteq> Inl TypeError"
  proof
    assume thr: "dlChanged_reply h m response = Inl TypeError"
    show False
    proof (cases "get_prop j ''words''")
      case (Inl e)
      with assms(6) show False by (cases j) simp_all
    next
      case (Inr v)
      show False
      proof (cases "\<exists>ws. v = Some (JArr ws)")
        case False
        then have "\<And>ws. v \<noteq> Some (JArr ws)" by blast
        from dlChanged_reply_words_not_array[OF assms(5) Inr this, of h m] thr
        show False by simp
      next
        case True
        then obtain ws where v: "v = Some (JArr ws)" by blast
        with Inr have "JNull \<notin> set ws" using assms(8) by simp
        then obtain b where "some_no_date ws = Inr b" using some_no_date_returns by blast
        with thr Inr v assms(5,6) show False
          by (cases b) (auto simp add: dlChanged_reply_def split: if_splits)
      qed
    qed
  qed
  with dlChanged_reply_stale[OF assms(2,3,5,6,7), of h]
  have "dlChanged_reply h m response = Inr None" by blast
  with res have "snd (dlChanged h w config (meta_or_empty s)) = Inr None" by simp
  from download_unchanged[OF this] m show ?thesis by simp
qed

text \<open>Meta \<open>{timestamp: 1000, etag: 'e1'}\<close>, remote file \<open>{timestamp: 1000, ...}\<close>.\<close>

theorem download_stale_is_noop_witness:
  "download \<lparr>btoa = id, stringify = Map.empty, le_coerced = (=), gt_coerced = (=)\<rparr>
     \<lparr>propfind_reply = Unreachable, mkcol_reply = None,
      get_reply = Some \<lparr>status = 200, json_body = Parsed (JObj [(''timestamp'', JNum (1000::int)), (''words'', JArr [JObj [(''date'', JNum (1::int))]])]),
        etag_header = Some ''e2''\<rparr>,
      put_reply = None, now = (2000::int), setSyncMeta_ok = True, saveWords_ok = True\<rparr>
     \<lparr>url = ''https://dav/'', user = ''u'', passwd = ''p'', duration = 60000\<rparr>
     \<lparr>meta = Some \<lparr>etag = Some ''e1'', timestamp = Some (JNum (1000::int))\<rparr>, notebook = [JObj [(''date'', JNum (5::int))]]\<rparr>
   = ([Fetch \<lparr>meth = ''GET'', target = ''https://dav/Saladict/notebook.json'',
              headers = [(''Authorization'', ''Basic u:p''),
                         (''If-None-Match'', ''e1''), (''If-Modified-Since'', ''e1'')],
              payload = None\<rparr>],
      \<lparr>meta = Some \<lparr>etag = Some ''e1'', timestamp = Some (JNum (1000::int))\<rparr>, notebook = [JObj [(''date'', JNum (5::int))]]\<rparr>,
      Inr ())"
  using download_stale_is_noop[of
      "\<lparr>meta = Some \<lparr>etag = Some ''e1'', timestamp = Some (JNum (1000::int))\<rparr>, notebook = [JObj [(''date'', JNum (5::int))]]\<rparr>"
      "\<lparr>etag = Some ''e1'', timestamp = Some (JNum (1000::int))\<rparr>" "1000::int"
      "\<lparr>propfind_reply = Unreachable, mkcol_reply = None,
      get_reply = Some \<lparr>status = 200, json_body = Parsed (JObj [(''timestamp'', JNum (1000::int)), (''words'', JArr [JObj [(''date'', JNum (1::int))]])]),
        etag_header = Some ''e2''\<rparr>,
      put_reply = None, now = (2000::int), setSyncMeta_ok = True, saveWords_ok = True\<rparr>"
      "\<lparr>status = 200, json_body = Parsed (JObj [(''timestamp'', JNum (1000::int)), (''words'', JArr [JObj [(''date'', JNum (1::int))]])]),
        etag_header = Some ''e2''\<rparr>"
      "JObj [(''timestamp'', JNum (1000::int)), (''words'', JArr [JObj [(''date'', JNum (1::int))]])]" "1000::int"]
  by (simp add: eval_defs)

text \<open>
  With Meta \<open>{timestamp: 0}\<close> the guard \<open>if (meta.timestamp)\<close> is false, so a remote
  file with timestamp \<open>0 \<le> 0\<close> is applied: Meta is rewritten and the local words are
  replaced. And with Meta \<open>{timestamp: 1000}\<close>, a remote file
  \<open>{timestamp: 1000, words: [null]}\<close> changes nothing, but the cycle does not return:
  it rejects with the TypeError of the validation.
\<close>

theorem download_zero_timestamp_counterexample:
  "download \<lparr>btoa = id, stringify = Map.empty, le_coerced = (=), gt_coerced = (=)\<rparr>
     \<lparr>propfind_reply = Unreachable, mkcol_reply = None,
      get_reply = Some \<lparr>status = 200, json_body = Parsed (JObj [(''timestamp'', JNum (0::int)), (''words'', JArr [JObj [(''date'', JNum (1::int))]])]),
        etag_header = None\<rparr>,
      put_reply = None, now = (2000::int), setSyncMeta_ok = True, saveWords_ok = True\<rparr>
     \<lparr>url = ''https://dav/'', user = ''u'', passwd = ''p'', duration = 60000\<rparr>
     \<lparr>meta = Some \<lparr>etag = None, timestamp = Some (JNum (0::int))\<rparr>, notebook = [JObj [(''date'', JNum (5::int))]]\<rparr>
   = ([Fetch \<lparr>meth = ''GET'', target = ''https://dav/Saladict/notebook.json'',
              headers = [(''Authorization'', ''Basic u:p'')],
              payload = None\<rparr>,
       SetMeta \<lparr>etag = Some [], timestamp = Some (JNum (0::int))\<rparr>,
       SetNotebook [JObj [(''date'', JNum (1::int))]]],
      \<lparr>meta = Some \<lparr>etag = Some [], timestamp = Some (JNum (0::int))\<rparr>,
       notebook = [JObj [(''date'', JNum (1::int))]]\<rparr>,
      Inr ())
   \<and>
   download \<lparr>btoa = id, stringify = Map.empty, le_coerced = (=), gt_coerced = (=)\<rparr>
     \<lparr>propfind_reply = Unreachable, mkcol_reply = None,
      get_reply = Some \<lparr>status = 200, json_body = Parsed (JObj [(''timestamp'', JNum (1000::int)), (''words'', JArr [JNull])]),
        etag_header = None\<rparr>,
      put_reply = None, now = (2000::int), setSyncMeta_ok = True, saveWords_ok = True\<rparr>
     \<lparr>url = ''https://dav/'', user = ''u'', passwd = ''p'', duration = 60000\<rparr>
     \<lparr>meta = Some \<lparr>etag = None, timestamp = Some (JNum (1000::int))\<rparr>, notebook = [JObj [(''date'', JNum (5::int))]]\<rparr>
   = ([Fetch \<lparr>meth = ''GET'', target = ''https://dav/Saladict/notebook.json'',
              headers = [(''Authorization'', ''Basic u:p'')],
              payload = None\<rparr>],
      \<lparr>meta = Some \<lparr>etag = None, timestamp = Some (JNum (1000::int))\<rparr>, notebook = [JObj [(''date'', JNum (5::int))]]\<rparr>,
      Inl TypeError)"
  by (simp add: eval_defs)




text \<open>
  C7. The body parses and \<open>words\<close> is the array \<open>[null, {}]\<close>, whose second word
  lacks a \<open>date\<close>. The property asks for the "no change" outcome with no error
  propagated; reading \<open>w.date\<close> of the first entry throws, and \<open>download\<close> rejects
  with the TypeError (Meta and the Notebook Store are untouched).
\<close>

theorem download_null_word_rejects:
  "download h
     (w\<lparr>get_reply := Some \<lparr>status = 200,
          json_body = Parsed (JObj [(''timestamp'', JNum 1), (''words'', JArr [JNull, JObj []])]),
          etag_header = None\<rparr>\<rparr>)
     config s
   = ([Fetch (dlChanged_request h config (meta_or_empty s))], s, Inl TypeError)"
  by (simp add: download_def dlChanged_def dlChanged_reply_def)



subsection \<open>\<open>syncServiceUpload\<close>\<close>

text \<open>
  C6. For every run of \<open>syncServiceUpload\<close> whose upload call succeeds (the PUT with
  text \<open>tx\<close> was issued and \<open>response.ok\<close> held), \<open>tx\<close> is the serialisation of
  \<open>{timestamp: T, words}\<close> with \<open>T\<close> the clock value read, and the Meta written right
  after the PUT is \<open>{timestamp: T, etag: ''}\<close> with the same \<open>T\<close>, whatever etag Meta
  held before; when that write succeeds, it is the stored Meta.
\<close>

theorem syncServiceUpload_success_meta:
  assumes "syncServiceUpload h w (Some config) s = (es, s', r)"
      and "Fetch (upload_request h config tx) \<in> set es"
      and "put_reply w = Some True"
  shows "\<exists>ws es1. stringify h (JObj [(''timestamp'', JNum (now w)), (''words'', JArr ws)]) = Some tx \<and>
           es = es1 @ [Fetch (upload_request h config tx),
                       SetMeta \<lparr>etag = Some [], timestamp = Some (JNum (now w))\<rparr>] \<and>
           (setSyncMeta_ok w \<longrightarrow>
              meta s' = Some \<lparr>etag = Some [], timestamp = Some (JNum (now w))\<rparr> \<and> r = Inr ())"
proof -
  from syncServiceUpload_success[OF assms] obtain es1 s1 where
    a: "stringify h (JObj [(''timestamp'', JNum (now w)), (''words'', JArr (notebook s1))]) = Some tx"
    and b: "es = es1 @ [Fetch (upload_request h config tx),
                       SetMeta \<lparr>etag = Some [], timestamp = Some (JNum (now w))\<rparr>]"
    and c: "(s', r) = (if setSyncMeta_ok w
                      then (s1\<lparr>meta := Some \<lparr>etag = Some [], timestamp = Some (JNum (now w))\<rparr>\<rparr>, Inr ())
                      else (s1, Inl StoreError))"
    by blast
  from c have "setSyncMeta_ok w \<longrightarrow>
      meta s' = Some \<lparr>etag = Some [], timestamp = Some (JNum (now w))\<rparr> \<and> r = Inr ()"
    by auto
  with a b show ?thesis by blast
qed

text \<open>Meta held the etag \<open>e1\<close>; the server answers 304 to the GET and accepts the PUT at time 2000.\<close>

theorem syncServiceUpload_success_meta_witness:
  "meta (fst (snd (syncServiceUpload
     \<lparr>btoa = id, stringify = (\<lambda>v. Some ''notebook''), le_coerced = (=), gt_coerced = (=)\<rparr>
     \<lparr>propfind_reply = Unreachable, mkcol_reply = None,
      get_reply = Some \<lparr>status = 304, json_body = Malformed, etag_header = None\<rparr>,
      put_reply = Some True, now = (2000::int), setSyncMeta_ok = True, saveWords_ok = True\<rparr>
     (Some \<lparr>url = ''https://dav/'', user = ''u'', passwd = ''p'', duration = 60000\<rparr>)
     \<lparr>meta = Some \<lparr>etag = Some ''e1'', timestamp = Some (JNum (1000::int))\<rparr>, notebook = [JObj [(''date'', JNum (5::int))]]\<rparr>)))
   = Some \<lparr>etag = Some [], timestamp = Some (JNum (2000::int))\<rparr>"
proof -
  have "meta \<lparr>meta = Some \<lparr>etag = Some [], timestamp = Some (JNum (2000::int))\<rparr>,
              notebook = [JObj [(''date'', JNum (5::int))]]\<rparr>
        = Some \<lparr>etag = Some [], timestamp = Some (JNum (2000::int))\<rparr>"
    using syncServiceUpload_success_meta[OF upload_run, of "''notebook''"]
    by (simp add: upload_request_def basic_auth_def)
  then show ?thesis by (simp add: upload_run)
qed

text \<open>
  C8. \<open>dlChanged\<close> attaches \<open>If-None-Match\<close> and \<open>If-Modified-Since\<close> whenever
  \<open>meta.etag\<close> is not null, the empty string included; hence the GET of the download
  that follows a successful \<open>syncServiceUpload\<close> (which stored the etag \<open>''\<close>) carries
  both headers with an empty value.
\<close>

theorem dlChanged_conditional_headers:
  "(\<forall>e. etag m = Some e \<longrightarrow>
      fst (dlChanged h w config m) =
        [Fetch \<lparr>meth = ''GET'', target = url config @ ''Saladict/notebook.json'',
                headers = [basic_auth h config, (''If-None-Match'', e), (''If-Modified-Since'', e)],
                payload = None\<rparr>]) \<and>
   (syncServiceUpload h w (Some config) s = (es, s', r) \<and>
    Fetch (upload_request h config tx) \<in> set es \<and> put_reply w = Some True \<and> setSyncMeta_ok w \<longrightarrow>
      (\<forall>w'. \<exists>rest. fst (download h w' config s') =
         Fetch \<lparr>meth = ''GET'', target = url config @ ''Saladict/notebook.json'',
                headers = [basic_auth h config, (''If-None-Match'', []), (''If-Modified-Since'', [])],
                payload = None\<rparr> # rest))"
proof (intro conjI allI impI)
  fix e assume "etag m = Some e"
  then show "fst (dlChanged h w config m) =
        [Fetch \<lparr>meth = ''GET'', target = url config @ ''Saladict/notebook.json'',
                headers = [basic_auth h config, (''If-None-Match'', e), (''If-Modified-Since'', e)],
                payload = None\<rparr>]"
    by (simp add: dlChanged_def dlChanged_request_def)
next
  fix w'
  assume a: "syncServiceUpload h w (Some config) s = (es, s', r) \<and>
    Fetch (upload_request h config tx) \<in> set es \<and> put_reply w = Some True \<and> setSyncMeta_ok w"
  then have run: "syncServiceUpload h w (Some config) s = (es, s', r)"
    and put: "Fetch (upload_request h config tx) \<in> set es"
    and ok: "put_reply w = Some True" and wr: "setSyncMeta_ok w"
    by simp_all
  from syncServiceUpload_success[OF run put ok] wr
  have "meta s' = Some \<lparr>etag = Some [], timestamp = Some (JNum (now w))\<rparr>" by auto
  then have "dlChanged_request h config (meta_or_empty s') =
      \<lparr>meth = ''GET'', target = url config @ ''Saladict/notebook.json'',
                headers = [basic_auth h config, (''If-None-Match'', []), (''If-Modified-Since'', [])],
                payload = None\<rparr>"
    by (simp add: meta_or_empty_def dlChanged_request_def)
  with download_first_effect[of h w' config s']
  show "\<exists>rest. fst (download h w' config s') =
         Fetch \<lparr>meth = ''GET'', target = url config @ ''Saladict/notebook.json'',
                headers = [basic_auth h config, (''If-None-Match'', []), (''If-Modified-Since'', [])],
                payload = None\<rparr> # rest"
    by simp
qed

text \<open>The upload run above, followed by a download that the server answers with 304.\<close>

theorem dlChanged_conditional_headers_witness:
  "fst (download \<lparr>btoa = id, stringify = (\<lambda>v. Some ''notebook''), le_coerced = (=), gt_coerced = (=)\<rparr>
     \<lparr>propfind_reply = Unreachable, mkcol_reply = None,
      get_reply = Some \<lparr>status = 304, json_body = Malformed, etag_header = None\<rparr>,
      put_reply = Some True, now = (2000::int), setSyncMeta_ok = True, saveWords_ok = True\<rparr>
     \<lparr>url = ''https://dav/'', user = ''u'', passwd = ''p'', duration = 60000\<rparr>
     (fst (snd (syncServiceUpload
        \<lparr>btoa = id, stringify = (\<lambda>v. Some ''notebook''), le_coerced = (=), gt_coerced = (=)\<rparr>
        \<lparr>propfind_reply = Unreachable, mkcol_reply = None,
      get_reply = Some \<lparr>status = 304, json_body = Malformed, etag_header = None\<rparr>,
      put_reply = Some True, now = (2000::int), setSyncMeta_ok = True, saveWords_ok = True\<rparr>
        (Some \<lparr>url = ''https://dav/'', user = ''u'', passwd = ''p'', duration = 60000\<rparr>)
        \<lparr>meta = Some \<lparr>etag = Some ''e1'', timestamp = Some (JNum (1000::int))\<rparr>, notebook = [JObj [(''date'', JNum (5::int))]]\<rparr>))))
   = [Fetch \<lparr>meth = ''GET'', target = ''https://dav/Saladict/notebook.json'',
              headers = [(''Authorization'', ''Basic u:p''),
                         (''If-None-Match'', []), (''If-Modified-Since'', [])],
              payload = None\<rparr>]"
proof -
  have "\<exists>rest. fst (download \<lparr>btoa = id, stringify = (\<lambda>v. Some ''notebook''), le_coerced = (=), gt_coerced = (=)\<rparr>
     \<lparr>propfind_reply = Unreachable, mkcol_reply = None,
      get_reply = Some \<lparr>status = 304, json_body = Malformed, etag_header = None\<rparr>,
      put_reply = Some True, now = (2000::int), setSyncMeta_ok = True, saveWords_ok = True\<rparr>
     \<lparr>url = ''https://dav/'', user = ''u'', passwd = ''p'', duration = 60000\<rparr>
     \<lparr>meta = Some \<lparr>etag = Some [], timestamp = Some (JNum (2000::int))\<rparr>,
       notebook = [JObj [(''date'', JNum (5::int))]]\<rparr>)
   = Fetch \<lparr>meth = ''GET'', target = ''https://dav/Saladict/notebook.json'',
              headers = [(''Authorization'', ''Basic u:p''),
                         (''If-None-Match'', []), (''If-Modified-Since'', [])],
              payload = None\<rparr> # rest"
    using dlChanged_conditional_headers[of "\<lparr>etag = None, timestamp = None\<rparr>"
        "\<lparr>btoa = id, stringify = (\<lambda>v. Some ''notebook''), le_coerced = (=), gt_coerced = (=)\<rparr>"
        "\<lparr>propfind_reply = Unreachable, mkcol_reply = None,
      get_reply = Some \<lparr>status = 304, json_body = Malformed, etag_header = None\<rparr>,
      put_reply = Some True, now = (2000::int), setSyncMeta_ok = True, saveWords_ok = True\<rparr>"
        "\<lparr>url = ''https://dav/'', user = ''u'', passwd = ''p'', duration = 60000\<rparr>"
        "\<lparr>meta = Some \<lparr>etag = Some ''e1'', timestamp = Some (JNum (1000::int))\<rparr>, notebook = [JObj [(''date'', JNum (5::int))]]\<rparr>"
        "fst (syncServiceUpload \<lparr>btoa = id, stringify = (\<lambda>v. Some ''notebook''), le_coerced = (=), gt_coerced = (=)\<rparr>
           \<lparr>propfind_reply = Unreachable, mkcol_reply = None,
      get_reply = Some \<lparr>status = 304, json_body = Malformed, etag_header = None\<rparr>,
      put_reply = Some True, now = (2000::int), setSyncMeta_ok = True, saveWords_ok = True\<rparr>
           (Some \<lparr>url = ''https://dav/'', user = ''u'', passwd = ''p'', duration = 60000\<rparr>)
           \<lparr>meta = Some \<lparr>etag = Some ''e1'', timestamp = Some (JNum (1000::int))\<rparr>, notebook = [JObj [(''date'', JNum (5::int))]]\<rparr>)"
        "\<lparr>meta = Some \<lparr>etag = Some [], timestamp = Some (JNum (2000::int))\<rparr>,
          notebook = [JObj [(''date'', JNum (5::int))]]\<rparr>"
        "Inr ()" "''notebook''"]
    by (simp add: upload_run upload_request_def basic_auth_def)
  then show ?thesis by (simp add: upload_run eval_defs)
qed

subsection \<open>\<open>reflect\<close>\<close>

lemma Promise_all_caught:
  "Promise_all (map (\<lambda>p. catch_null (Promise_resolve p)) arr) =
     Inr (map (\<lambda>p. case p of Plain v \<Rightarrow> Some v | Fulfils v \<Rightarrow> Some v | Rejects e \<Rightarrow> None) arr)"
proof (induction arr)
  case Nil
  show ?case by simp
next
  case (Cons p ps)
  then show ?case by (cases p) simp_all
qed

text \<open>
  C10. For every array-like of values or promises, \<open>reflect\<close> resolves (it never
  rejects) with an array of the same length and order, in which a plain value or a
  fulfilled promise is replaced by its value and a rejected promise by \<open>null\<close>.
\<close>

theorem reflect_always_resolves:
  "\<exists>vs. reflect arr = Inr vs \<and> length vs = length arr \<and>
     vs = map (\<lambda>p. case p of Plain v \<Rightarrow> Some v | Fulfils v \<Rightarrow> Some v | Rejects e \<Rightarrow> None) arr"
  by (simp add: reflect_def Promise_all_caught)

end
